theory Spec2Isabelle
  imports Complex_Main "HOL-Library.Word" "HOL-Library.AList" "HOL-Library.Sublist"
begin

section \<open>JavaScript values used by canvas-font-metrics\<close>

text \<open>
  A JavaScript string is a sequence of UTF-16 code units. \<open>js\<close> embeds an ASCII literal;
  \<open>String.fromCharCode(n)\<close> converts its argument with ToUint16, which is \<open>of_nat\<close> into
  a 16-bit word.
\<close>

type_synonym jsstring = "16 word list"

definition js :: "string \<Rightarrow> jsstring" where
  "js s = map (\<lambda>c. of_nat (of_char c)) s"

definition fromCharCode :: "nat \<Rightarrow> jsstring" where
  "fromCharCode n = [of_nat n]"

text \<open>
  Numbers: NaN, the two infinities and the finite values. Finite doubles are idealised as
  rationals: rounding, overflow and the sign of zero are not modelled. A value read from a
  measurement result is a number or \<open>undefined\<close>.
\<close>

datatype jsnum = NaN | NegInf | Finite rat | PosInf

datatype jsval = Undefined | Number jsnum

definition ToNumber :: "jsval \<Rightarrow> jsnum" where
  "ToNumber v = (case v of Undefined \<Rightarrow> NaN | Number n \<Rightarrow> n)"

text \<open>The operator \<open>/\<close> on numbers.\<close>

fun js_div :: "jsnum \<Rightarrow> jsnum \<Rightarrow> jsnum" where
  "js_div NaN _ = NaN"
| "js_div _ NaN = NaN"
| "js_div (Finite a) (Finite b) =
     (if b = 0 then (if a = 0 then NaN else if 0 < a then PosInf else NegInf)
      else Finite (a / b))"
| "js_div (Finite a) _ = Finite 0"
| "js_div PosInf (Finite b) = (if b < 0 then NegInf else PosInf)"
| "js_div NegInf (Finite b) = (if b < 0 then PosInf else NegInf)"
| "js_div _ _ = NaN"

text \<open>The operator \<open>>\<close> on numbers: every comparison with NaN is false.\<close>

fun js_gt :: "jsnum \<Rightarrow> jsnum \<Rightarrow> bool" where
  "js_gt NaN _ = False"
| "js_gt _ NaN = False"
| "js_gt (Finite a) (Finite b) = (b < a)"
| "js_gt PosInf PosInf = False"
| "js_gt PosInf _ = True"
| "js_gt NegInf _ = False"
| "js_gt (Finite a) NegInf = True"
| "js_gt (Finite a) PosInf = False"

text \<open>Truthiness (\<open>!!v\<close>): \<open>undefined\<close>, \<open>NaN\<close> and zero are falsy.\<close>

fun truthy :: "jsval \<Rightarrow> bool" where
  "truthy Undefined = False"
| "truthy (Number NaN) = False"
| "truthy (Number (Finite a)) = (a \<noteq> 0)"
| "truthy (Number _) = True"

text \<open>
  A plain object created by \<open>{}\<close> inherits from \<open>Object.prototype\<close>. A property read
  \<open>obj[key]\<close> finds the object's own property, or else the inherited one, or else
  \<open>undefined\<close>. The own properties are an association list in insertion order.
\<close>

definition object_prototype_names :: "jsstring list" where
  "object_prototype_names =
     [js ''constructor'', js ''__defineGetter__'', js ''__defineSetter__'',
      js ''hasOwnProperty'', js ''__lookupGetter__'', js ''__lookupSetter__'',
      js ''isPrototypeOf'', js ''propertyIsEnumerable'', js ''toString'', js ''valueOf'',
      js ''__proto__'', js ''toLocaleString'']"

datatype 'a property = Own 'a | Inherited jsstring | Missing

definition js_get :: "(jsstring \<times> 'a) list \<Rightarrow> jsstring \<Rightarrow> 'a property" where
  "js_get obj key =
     (case map_of obj key of
        Some v \<Rightarrow> Own v
      | None \<Rightarrow> if key \<in> set object_prototype_names then Inherited key else Missing)"

text \<open>\<open>Array.prototype.indexOf\<close>: the first index of the element, or \<open>-1\<close>.\<close>

fun indexOf :: "'a list \<Rightarrow> 'a \<Rightarrow> int" where
  "indexOf [] x = -1"
| "indexOf (y # ys) x =
     (if y = x then 0 else (let i = indexOf ys x in if i = -1 then -1 else i + 1))"

text \<open>
  Reading \<open>.length\<close> from a number: the number is boxed, \<open>Number.prototype\<close> has no
  \<open>length\<close>, and the read yields \<open>undefined\<close>.
\<close>

definition number_length :: "int \<Rightarrow> jsval" where
  "number_length n = Undefined"

section \<open>Module state and the platform\<close>

record style_el =
  styleTag :: jsstring
  textNode :: jsstring

text \<open>
  The canvas context: the three properties \<open>setFont\<close> assigns, holding the values as
  assigned (what the platform makes of them is part of the surface). \<open>measured\<close> is a
  ghost field that records every string passed to \<open>ctx.measureText\<close>, in order.
\<close>

record canvas_ctx =
  font :: jsstring
  textAlign :: jsstring
  textBaseline :: "jsstring option"
  measured :: "jsstring list"

type_synonym text_metrics = "(jsstring \<times> jsnum) list"

text \<open>
  The options object: each field is absent (\<open>None\<close>) or present with a value of its
  documented type: \<open>chars\<close> an object from anchor names to probe strings, \<open>fontSize\<close> a
  number, \<open>baseline\<close> a string. The argument \<open>options\<close> itself may be omitted or \<open>null\<close>.
\<close>

record options =
  chars :: "(jsstring \<times> jsstring) list option"
  fontSize :: "jsnum option"
  baseline :: "jsstring option"

datatype options_arg = OptUndefined | OptNull | OptObject options

text \<open>
  What the module takes from outside: the data URI exported by \<open>./adobe-blank.js\<close>,
  \<open>JSON.stringify\<close> on the options argument, the conversion of a number to a string, and
  the drawing surface, which answers \<open>measureText\<close> from the context's font, alignment
  and baseline and the text. A measurement result lists its enumerable fields.
\<close>

record env =
  blankFontDataUri :: jsstring
  JSON_stringify :: "options_arg \<Rightarrow> jsstring"
  NumberToString :: "jsnum \<Rightarrow> jsstring"
  surface :: "jsstring \<Rightarrow> jsstring \<Rightarrow> jsstring option \<Rightarrow> jsstring \<Rightarrow> text_metrics"

text \<open>
  The Metrics object: the six anchor metrics and the ligatures are data; the three methods
  are closures over the variables \<open>ctx\<close>, \<open>fontSize\<close> and \<open>widths\<close> of the call that
  built the object, kept here as the \<open>closure_\<close> fields.
\<close>

record metrics =
  capHeight :: jsnum
  baseline :: jsnum
  xHeight :: jsnum
  descent :: jsnum
  ascent :: jsnum
  tittle :: jsnum
  ligatures :: "jsstring list"
  closure_ctx :: canvas_ctx
  closure_fontSize :: jsval
  closure_widths :: "(jsstring \<times> jsnum) list"

text \<open>
  The state shared by all calls: the module variables \<open>instances\<close> (identity key to the
  reference of the cached instance) and \<open>insertedBlankFonts\<close>, the style elements appended
  to \<open>document.head\<close>, and the store of the Metrics objects constructed so far. A reference
  is an index into \<open>heap\<close>; every construction allocates one object.
\<close>

record page =
  instances :: "(jsstring \<times> nat) list"
  insertedBlankFonts :: "jsstring list"
  head :: "style_el list"
  heap :: "metrics list"

definition initial_page :: page where
  "initial_page = \<lparr>instances = [], insertedBlankFonts = [], head = [], heap = []\<rparr>"

section \<open>Constants\<close>

definition defaultOptions :: options where
  "defaultOptions =
     \<lparr>chars = Some [(js ''capHeight'', js ''S''), (js ''baseline'', js ''n''),
                     (js ''xHeight'', js ''x''), (js ''descent'', js ''p''),
                     (js ''ascent'', js ''h''), (js ''tittle'', js ''i'')],
      fontSize = Some (Finite 16),
      baseline = Some (js ''top'')\<rparr>"

text \<open>
  The weight reaches every expression of the module through a conversion to a string (a
  template literal, or \<open>+\<close> with the style string), so it is kept as that string: the
  default \<open>400\<close> is \<open>''400''\<close>.
\<close>

definition defaultFontWeight :: jsstring where
  "defaultFontWeight = js ''400''"

definition defaultFontStyle :: jsstring where
  "defaultFontStyle = js ''normal''"

definition ligatureCodes :: "(jsstring \<times> nat) list" where
  "ligatureCodes = [(js ''ff'', 64256), (js ''fi'', 64257), (js ''fl'', 64258), (js ''st'', 64262)]"

definition blankFontFamily :: jsstring where
  "blankFontFamily = js ''AdobeBlank''"

section \<open>Utility methods\<close>

definition nl :: jsstring where
  "nl = [10]"

definition tab :: jsstring where
  "tab = [9]"

definition blank_css :: "env \<Rightarrow> jsstring \<Rightarrow> jsstring \<Rightarrow> jsstring" where
  "blank_css e weight style =
     js ''@font-face {'' @ nl @
     tab @ tab @ js ''font-family: '' @ blankFontFamily @ js '';'' @ nl @
     tab @ tab @ js ''font-weight: '' @ weight @ js '';'' @ nl @
     tab @ tab @ js ''font-style: '' @ style @ js '';'' @ nl @
     tab @ tab @ js ''src: url('' @ blankFontDataUri e @ js '') format('woff');'' @ nl @
     tab @ js ''}''"

text \<open>
  \<open>insertblankFont\<close>: the guard reads \<open>.length\<close> of the number returned by \<open>indexOf\<close>
  and compares it with \<open>-1\<close>.
\<close>

definition insertblankFont :: "env \<Rightarrow> jsstring \<Rightarrow> jsstring \<Rightarrow> page \<Rightarrow> page" where
  "insertblankFont e weight style s =
     (let blank_id = weight @ style in
      if js_gt (ToNumber (number_length (indexOf (insertedBlankFonts s) blank_id))) (Finite (- 1))
      then s
      else
        (let styleEl = \<lparr>styleTag = js ''text/css'', textNode = blank_css e weight style\<rparr>
         in s\<lparr>head := head s @ [styleEl],
               insertedBlankFonts := insertedBlankFonts s @ [blank_id]\<rparr>))"

text \<open>
  \<open>waitForFont\<close> awaits \<open>observer.load()\<close>. How the observer settles is an event of the
  environment; a rejection carries its reason to the awaiting caller.
\<close>

datatype load_event = Loaded | Failed jsstring

datatype error = LoadRejected jsstring | TypeError

definition waitForFont :: "load_event \<Rightarrow> error + unit" where
  "waitForFont ev = (case ev of Loaded \<Rightarrow> Inr () | Failed reason \<Rightarrow> Inl (LoadRejected reason))"

definition getId :: "env \<Rightarrow> jsstring \<Rightarrow> jsstring \<Rightarrow> jsstring \<Rightarrow> options_arg \<Rightarrow> jsstring" where
  "getId e fontFamily fontWeight fontStyle opts =
     fontFamily @ fontWeight @ fontStyle @ JSON_stringify e opts"

definition ToString :: "env \<Rightarrow> jsval \<Rightarrow> jsstring" where
  "ToString e v = (case v of Undefined \<Rightarrow> js ''undefined'' | Number n \<Rightarrow> NumberToString e n)"

definition setFont ::
  "env \<Rightarrow> canvas_ctx \<Rightarrow> jsstring \<Rightarrow> jsstring \<Rightarrow> jsstring \<Rightarrow> jsval \<Rightarrow> jsstring option \<Rightarrow> canvas_ctx" where
  "setFont e c fontFamily fontWeight fontStyle fontSize' baseline' =
     c\<lparr>font := fontWeight @ js '' '' @ fontStyle @ js '' '' @ ToString e fontSize' @ js ''px '' @
                fontFamily @ js '', '' @ blankFontFamily,
       textAlign := js ''left'',
       textBaseline := baseline'\<rparr>"

text \<open>\<open>ctx.measureText(string)\<close>: the surface's answer, and the call recorded.\<close>

definition ctx_measureText :: "env \<Rightarrow> canvas_ctx \<Rightarrow> jsstring \<Rightarrow> text_metrics \<times> canvas_ctx" where
  "ctx_measureText e c string =
     (surface e (font c) (textAlign c) (textBaseline c) string,
      c\<lparr>measured := measured c @ [string]\<rparr>)"

text \<open>
  Reading a field of a measurement result. The fields read by name (\<open>width\<close>,
  \<open>actualBoundingBoxAscent\<close>, \<open>actualBoundingBoxDescent\<close>) are not names of
  \<open>Object.prototype\<close>, so an absent field reads as \<open>undefined\<close>.
\<close>

definition tm_get :: "text_metrics \<Rightarrow> jsstring \<Rightarrow> jsval" where
  "tm_get tm field = (case map_of tm field of None \<Rightarrow> Undefined | Some n \<Rightarrow> Number n)"

text \<open>
  \<open>detectLigatures\<close>: \<open>for (const lig in ligatureCodes)\<close> visits the keys in declaration
  order, and \<open>ligatureCodes[lig]\<close> is the code declared with the key.
\<close>

fun detectLigatures_loop ::
  "env \<Rightarrow> (jsstring \<times> nat) list \<Rightarrow> canvas_ctx \<Rightarrow> jsstring list \<Rightarrow> jsstring list \<times> canvas_ctx" where
  "detectLigatures_loop e [] c detected = (detected, c)"
| "detectLigatures_loop e ((lig, code) # rest) c detected =
     (case ctx_measureText e c (fromCharCode code) of
        (tm, c') \<Rightarrow>
          detectLigatures_loop e rest c'
            (if js_gt (ToNumber (tm_get tm (js ''width''))) (Finite 0)
             then detected @ [lig] else detected))"

definition detectLigatures :: "env \<Rightarrow> canvas_ctx \<Rightarrow> jsstring list \<times> canvas_ctx" where
  "detectLigatures e c = detectLigatures_loop e ligatureCodes c []"

text \<open>\<open>detectGlyphs\<close>: the loop \<open>for (let i = 0; i <= 65535; i++)\<close>.\<close>

function detectGlyphs_loop ::
  "env \<Rightarrow> nat \<Rightarrow> canvas_ctx \<Rightarrow> jsstring list \<Rightarrow> jsstring list \<times> canvas_ctx" where
  "detectGlyphs_loop e i c detected =
     (if i \<le> 65535 then
        detectGlyphs_loop e (i + 1) (snd (ctx_measureText e c (fromCharCode i)))
          (if js_gt (ToNumber (tm_get (fst (ctx_measureText e c (fromCharCode i))) (js ''width'')))
                (Finite 0)
           then detected @ [fromCharCode i] else detected)
      else (detected, c))"
  by pat_completeness auto
termination
  by (relation "measure (\<lambda>(e, i, c, detected). 65536 - i)") auto

declare detectGlyphs_loop.simps [simp del]

definition detectGlyphs :: "env \<Rightarrow> canvas_ctx \<Rightarrow> jsstring list \<times> canvas_ctx" where
  "detectGlyphs e c = detectGlyphs_loop e 0 c []"

text \<open>
  The assignment \<open>obj[key] = v\<close> of a number or \<open>undefined\<close> to a plain object:
  \<open>__proto__\<close> is the prototype accessor, whose setter ignores a value that is not an
  object; any other key becomes, or overwrites, an own property.
\<close>

definition assign :: "(jsstring \<times> jsval) list \<Rightarrow> jsstring \<Rightarrow> jsval \<Rightarrow> (jsstring \<times> jsval) list" where
  "assign obj key v = (if key = js ''__proto__'' then obj else AList.update key v obj)"

text \<open>
  \<open>normalize\<close>: \<open>for (const prop in measurements)\<close> visits the enumerable fields of the
  measurement result in order.
\<close>

fun normalize_loop ::
  "text_metrics \<Rightarrow> jsstring list \<Rightarrow> jsval \<Rightarrow> (jsstring \<times> jsval) list \<Rightarrow> (jsstring \<times> jsval) list" where
  "normalize_loop measurements [] fontSize' normalized = normalized"
| "normalize_loop measurements (prop # rest) fontSize' normalized =
     normalize_loop measurements rest fontSize'
       (assign normalized prop
          (if truthy (tm_get measurements prop)
           then Number (js_div (ToNumber (tm_get measurements prop)) (ToNumber fontSize'))
           else tm_get measurements prop))"

definition normalize :: "canvas_ctx \<Rightarrow> text_metrics \<Rightarrow> jsval \<Rightarrow> (jsstring \<times> jsval) list" where
  "normalize c measurements fontSize' =
     normalize_loop measurements (map fst measurements) fontSize' []"

definition measureTop :: "env \<Rightarrow> canvas_ctx \<Rightarrow> jsstring \<Rightarrow> jsval \<Rightarrow> jsnum \<times> canvas_ctx" where
  "measureTop e c string fontSize' =
     (case ctx_measureText e c string of
        (tm, c') \<Rightarrow>
          (js_div (ToNumber (tm_get tm (js ''actualBoundingBoxAscent''))) (ToNumber fontSize'), c'))"

definition measureBottom :: "env \<Rightarrow> canvas_ctx \<Rightarrow> jsstring \<Rightarrow> jsval \<Rightarrow> jsnum \<times> canvas_ctx" where
  "measureBottom e c string fontSize' =
     (case ctx_measureText e c string of
        (tm, c') \<Rightarrow>
          (js_div (ToNumber (tm_get tm (js ''actualBoundingBoxDescent''))) (ToNumber fontSize'), c'))"

section \<open>The constructor\<close>

text \<open>
  Object spread. \<open>{...a, ...b}\<close> copies the own properties of \<open>a\<close>, then those of \<open>b\<close>,
  a later property replacing an earlier one of the same name; spreading \<open>undefined\<close>
  copies nothing.
\<close>

definition spread_chars ::
  "(jsstring \<times> jsstring) list \<Rightarrow> (jsstring \<times> jsstring) list option \<Rightarrow> (jsstring \<times> jsstring) list" where
  "spread_chars target source =
     (case source of None \<Rightarrow> target | Some ps \<Rightarrow> fold (\<lambda>(k, v). AList.update k v) ps target)"

definition override :: "'a option \<Rightarrow> 'a option \<Rightarrow> 'a option" where
  "override earlier later = (case later of None \<Rightarrow> earlier | Some v \<Rightarrow> Some v)"

definition spread_options :: "options \<Rightarrow> options \<Rightarrow> options" where
  "spread_options target source =
     \<lparr>chars = override (chars target) (chars source),
      fontSize = override (options.fontSize target) (options.fontSize source),
      baseline = override (options.baseline target) (options.baseline source)\<rparr>"

text \<open>
  The merge, as the object literal is written: first the property \<open>chars\<close>, then
  \<open>...defaultOptions\<close>, then \<open>...options\<close>. Reading \<open>options.chars\<close> from \<open>null\<close> (or
  \<open>undefined\<close>) raises a TypeError.
\<close>

definition mergedOptions :: "options_arg \<Rightarrow> error + options" where
  "mergedOptions options' =
     (case options' of
        OptUndefined \<Rightarrow> Inl TypeError
      | OptNull \<Rightarrow> Inl TypeError
      | OptObject opts \<Rightarrow>
          Inr (spread_options
                (spread_options
                   \<lparr>chars = Some (spread_chars (spread_chars [] (chars defaultOptions)) (chars opts)),
                    fontSize = None, baseline = None\<rparr>
                   defaultOptions)
                opts))"

text \<open>
  \<open>chars.name\<close>, as \<open>ctx.measureText\<close> receives it: the argument is converted to a
  string, so an anchor absent from \<open>chars\<close> is measured as the text \<open>undefined\<close>. The
  anchor names are not names of \<open>Object.prototype\<close>.
\<close>

definition anchor :: "(jsstring \<times> jsstring) list \<Rightarrow> jsstring \<Rightarrow> jsstring" where
  "anchor cs name = (case map_of cs name of None \<Rightarrow> js ''undefined'' | Some string \<Rightarrow> string)"

text \<open>The context returned by \<open>canvas.getContext('2d')\<close> on a new canvas.\<close>

definition new_ctx :: canvas_ctx where
  "new_ctx = \<lparr>font = js ''10px sans-serif'', textAlign = js ''start'',
              textBaseline = Some (js ''alphabetic''), measured = []\<rparr>"

text \<open>The object literal \<open>metrics\<close>: its properties are evaluated in the order written.\<close>

definition create_instance :: "env \<Rightarrow> canvas_ctx \<Rightarrow> (jsstring \<times> jsstring) list \<Rightarrow> jsval \<Rightarrow> metrics" where
  "create_instance e c0 cs fontSize' =
     (let (capHeight', c1) = measureTop e c0 (anchor cs (js ''capHeight'')) fontSize';
          (baseline', c2) = measureBottom e c1 (anchor cs (js ''baseline'')) fontSize';
          (xHeight', c3) = measureTop e c2 (anchor cs (js ''xHeight'')) fontSize';
          (descent', c4) = measureBottom e c3 (anchor cs (js ''descent'')) fontSize';
          (ascent', c5) = measureTop e c4 (anchor cs (js ''ascent'')) fontSize';
          (tittle', c6) = measureTop e c5 (anchor cs (js ''tittle'')) fontSize';
          (ligatures', c7) = detectLigatures e c6
      in \<lparr>capHeight = capHeight', baseline = baseline', xHeight = xHeight',
          descent = descent', ascent = ascent', tittle = tittle', ligatures = ligatures',
          closure_ctx = c7, closure_fontSize = fontSize', closure_widths = []\<rparr>)"

text \<open>
  A call of the async function \<open>CanvasFontMetrics\<close> runs to its first \<open>await\<close>, is
  resumed when the awaited wait settles, and ends settled with a value or an error. The
  frame keeps the locals \<open>fontFamily\<close>, \<open>fontWeight\<close>, \<open>fontStyle\<close>, \<open>options\<close> and
  \<open>id\<close>. A cache hit returns \<open>instances[id]\<close>: a stored reference, or the member of
  \<open>Object.prototype\<close> of that name.
\<close>

datatype frame = Frame jsstring jsstring jsstring options_arg jsstring

datatype result = Instance nat | PrototypeMember jsstring

datatype task = AwaitFont frame | AwaitBlank frame | Settled "error + result"

text \<open>The parameter defaults: a default applies when the property is omitted.\<close>

definition weight_or_default :: "jsstring option \<Rightarrow> jsstring" where
  "weight_or_default weight_arg = (case weight_arg of None \<Rightarrow> defaultFontWeight | Some w \<Rightarrow> w)"

definition style_or_default :: "jsstring option \<Rightarrow> jsstring" where
  "style_or_default style_arg = (case style_arg of None \<Rightarrow> defaultFontStyle | Some st \<Rightarrow> st)"

definition options_or_default :: "options_arg \<Rightarrow> options_arg" where
  "options_or_default options_arg' =
     (case options_arg' of
        OptUndefined \<Rightarrow> OptObject \<lparr>chars = None, fontSize = None, baseline = None\<rparr>
      | OptNull \<Rightarrow> OptNull
      | OptObject opts \<Rightarrow> OptObject opts)"

definition CanvasFontMetrics ::
  "env \<Rightarrow> jsstring \<Rightarrow> jsstring option \<Rightarrow> jsstring option \<Rightarrow> options_arg \<Rightarrow> page \<Rightarrow> task \<times> page" where
  "CanvasFontMetrics e fontFamily weight_arg style_arg options_arg' s =
     (let fontWeight = weight_or_default weight_arg;
          fontStyle = style_or_default style_arg;
          options' = options_or_default options_arg';
          cache_id = getId e fontFamily fontWeight fontStyle options'
      in case js_get (instances s) cache_id of
           Own r \<Rightarrow> (Settled (Inr (Instance r)), s)
         | Inherited name \<Rightarrow> (Settled (Inr (PrototypeMember name)), s)
         | Missing \<Rightarrow>
             (AwaitFont (Frame fontFamily fontWeight fontStyle options' cache_id),
              insertblankFont e fontWeight fontStyle s))"

text \<open>
  The rest of the body, after both waits: merge the options, ready the canvas, create the
  instance and cache it. The new object's reference is the next free index of \<open>heap\<close>.
  The guard of the cache check excluded the names of \<open>Object.prototype\<close>, so
  \<open>instances[id] = metrics\<close> at the check's key writes an own property. The merge always
  defines \<open>chars\<close>; were it \<open>undefined\<close>, the first read \<open>chars.capHeight\<close> would raise.
\<close>

definition fontSize_of :: "options \<Rightarrow> jsval" where
  "fontSize_of merged = (case options.fontSize merged of None \<Rightarrow> Undefined | Some n \<Rightarrow> Number n)"

definition construct :: "env \<Rightarrow> frame \<Rightarrow> page \<Rightarrow> task \<times> page" where
  "construct e fr s =
     (case fr of
        Frame fontFamily fontWeight fontStyle options' cache_id \<Rightarrow>
          (case mergedOptions options' of
             Inl err \<Rightarrow> (Settled (Inl err), s)
           | Inr merged \<Rightarrow>
               (case chars merged of
                  None \<Rightarrow> (Settled (Inl TypeError), s)
                | Some cs \<Rightarrow>
                    (let c = setFont e new_ctx fontFamily fontWeight fontStyle
                               (fontSize_of merged) (options.baseline merged);
                         m = create_instance e c cs (fontSize_of merged);
                         r = length (heap s)
                     in (Settled (Inr (Instance r)),
                         s\<lparr>heap := heap s @ [m],
                           instances := AList.update cache_id r (instances s)\<rparr>)))))"

definition resume :: "env \<Rightarrow> load_event \<Rightarrow> task \<Rightarrow> page \<Rightarrow> task \<times> page" where
  "resume e ev t s =
     (case t of
        AwaitFont fr \<Rightarrow>
          (case waitForFont ev of
             Inl err \<Rightarrow> (Settled (Inl err), s)
           | Inr _ \<Rightarrow> (AwaitBlank fr, s))
      | AwaitBlank fr \<Rightarrow>
          (case waitForFont ev of
             Inl err \<Rightarrow> (Settled (Inl err), s)
           | Inr _ \<Rightarrow> construct e fr s)
      | Settled r \<Rightarrow> (Settled r, s))"

text \<open>
  One call awaited with nothing else running in between: the requested font's wait
  settles as \<open>ev1\<close>, the backup face's as \<open>ev2\<close>.
\<close>

definition await_call ::
  "env \<Rightarrow> jsstring \<Rightarrow> jsstring option \<Rightarrow> jsstring option \<Rightarrow> options_arg \<Rightarrow>
   load_event \<Rightarrow> load_event \<Rightarrow> page \<Rightarrow> task \<times> page" where
  "await_call e fontFamily weight_arg style_arg options_arg' ev1 ev2 s =
     (case CanvasFontMetrics e fontFamily weight_arg style_arg options_arg' s of
        (t1, s1) \<Rightarrow> (case resume e ev1 t1 s1 of (t2, s2) \<Rightarrow> resume e ev2 t2 s2))"

text \<open>
  The event loop, as far as this module sees it: a new call of the factory starts a task
  and runs it to its first \<open>await\<close>; the wait a task is suspended on settles and the task
  runs to its next \<open>await\<close> or to its end. Events happen one at a time.
\<close>

datatype event =
    Call jsstring "jsstring option" "jsstring option" options_arg
  | Settle nat load_event

fun step :: "env \<Rightarrow> event \<Rightarrow> task list \<times> page \<Rightarrow> task list \<times> page" where
  "step e (Call fontFamily weight_arg style_arg options_arg') (ts, s) =
     (case CanvasFontMetrics e fontFamily weight_arg style_arg options_arg' s of
        (t, s') \<Rightarrow> (ts @ [t], s'))"
| "step e (Settle n ev) (ts, s) =
     (if n < length ts
      then (case resume e ev (ts ! n) s of (t, s') \<Rightarrow> (ts[n := t], s'))
      else (ts, s))"

definition run :: "env \<Rightarrow> event list \<Rightarrow> task list \<times> page \<Rightarrow> task list \<times> page" where
  "run e evs st = fold (step e) evs st"


section \<open>The methods of a Metrics object\<close>

definition getGlyphs :: "env \<Rightarrow> metrics \<Rightarrow> jsstring list \<times> metrics" where
  "getGlyphs e m =
     (case detectGlyphs e (closure_ctx m) of (glyphs, c') \<Rightarrow> (glyphs, m\<lparr>closure_ctx := c'\<rparr>))"

text \<open>
  \<open>measureWidth\<close>. \<open>!widths[string]\<close> holds when the read finds nothing or a falsy number;
  an inherited member of \<open>Object.prototype\<close> is truthy. Under the guard the key is
  therefore not a name of \<open>Object.prototype\<close> and the assignment writes an own property.
\<close>

fun truthy_property :: "jsnum property \<Rightarrow> bool" where
  "truthy_property (Own n) = truthy (Number n)"
| "truthy_property (Inherited name) = True"
| "truthy_property Missing = False"

definition measureWidth :: "env \<Rightarrow> metrics \<Rightarrow> jsstring \<Rightarrow> jsnum property \<times> metrics" where
  "measureWidth e m string =
     (if \<not> truthy_property (js_get (closure_widths m) string) then
        (case ctx_measureText e (closure_ctx m) string of
           (tm, c') \<Rightarrow>
             (let widths' = AList.update string
                              (js_div (ToNumber (tm_get tm (js ''width'')))
                                      (ToNumber (closure_fontSize m)))
                              (closure_widths m)
              in (js_get widths' string, m\<lparr>closure_ctx := c', closure_widths := widths'\<rparr>)))
      else (js_get (closure_widths m) string, m))"

definition measureText :: "env \<Rightarrow> metrics \<Rightarrow> jsstring \<Rightarrow> (jsstring \<times> jsval) list \<times> metrics" where
  "measureText e m string =
     (case ctx_measureText e (closure_ctx m) string of
        (tm, c') \<Rightarrow> (normalize c' tm (closure_fontSize m), m\<lparr>closure_ctx := c'\<rparr>))"

section \<open>What the surface reports\<close>

text \<open>
  The raw reading of a field from the surface's measurement of a text, under the
  context's settings, and the test \<open>ctx.measureText(string).width > 0\<close>.
\<close>

definition raw_field :: "env \<Rightarrow> canvas_ctx \<Rightarrow> jsstring \<Rightarrow> jsstring \<Rightarrow> jsval" where
  "raw_field e c string field =
     tm_get (surface e (font c) (textAlign c) (textBaseline c) string) field"

definition has_width :: "env \<Rightarrow> canvas_ctx \<Rightarrow> jsstring \<Rightarrow> bool" where
  "has_width e c string = js_gt (ToNumber (raw_field e c string (js ''width''))) (Finite 0)"

section \<open>An example environment\<close>

text \<open>
  A test font for the concrete evaluations below: \<open>S\<close> has an ascent of 70 units,
  \<open>p\<close> a descent of 20, the ligature \<open>fi\<close> (code 64257) is present, and every other text
  has no extent. \<open>example_stringify\<close> and \<open>example_number_string\<close> give
  \<open>JSON.stringify\<close> and the number conversion at the values of the examples (\<open>{}\<close>,
  \<open>null\<close>, 16).
\<close>

definition example_surface :: "jsstring \<Rightarrow> jsstring \<Rightarrow> jsstring option \<Rightarrow> jsstring \<Rightarrow> text_metrics" where
  "example_surface font' align baseline' text =
     (if text = js ''S'' then
        [(js ''width'', Finite 60), (js ''actualBoundingBoxAscent'', Finite 70),
         (js ''actualBoundingBoxDescent'', Finite 0)]
      else if text = js ''p'' then
        [(js ''width'', Finite 50), (js ''actualBoundingBoxAscent'', Finite 45),
         (js ''actualBoundingBoxDescent'', Finite 20)]
      else if text = fromCharCode 64257 then
        [(js ''width'', Finite 55), (js ''actualBoundingBoxAscent'', Finite 72),
         (js ''actualBoundingBoxDescent'', Finite 0)]
      else
        [(js ''width'', Finite 0), (js ''actualBoundingBoxAscent'', Finite 0),
         (js ''actualBoundingBoxDescent'', Finite 0)])"

definition example_stringify :: "options_arg \<Rightarrow> jsstring" where
  "example_stringify v = (case v of OptNull \<Rightarrow> js ''null'' | _ \<Rightarrow> js ''{}'')"

definition example_number_string :: "jsnum \<Rightarrow> jsstring" where
  "example_number_string n = (case n of NaN \<Rightarrow> js ''NaN'' | _ \<Rightarrow> js ''16'')"

definition example_env :: env where
  "example_env =
     \<lparr>blankFontDataUri = js ''data:font/woff;base64,d09GRg'',
      JSON_stringify = example_stringify,
      NumberToString = example_number_string,
      surface = example_surface\<rparr>"

text \<open>A surface of a platform without bounding-box measurements: only \<open>width\<close>.\<close>

definition width_only_surface :: "jsstring \<Rightarrow> jsstring \<Rightarrow> jsstring option \<Rightarrow> jsstring \<Rightarrow> text_metrics" where
  "width_only_surface font' align baseline' text = [(js ''width'', Finite 8)]"

definition width_only_env :: env where
  "width_only_env = example_env\<lparr>surface := width_only_surface\<rparr>"

text \<open>A font without any glyph: every text measures with no extent.\<close>

definition blank_surface :: "jsstring \<Rightarrow> jsstring \<Rightarrow> jsstring option \<Rightarrow> jsstring \<Rightarrow> text_metrics" where
  "blank_surface font' align baseline' text =
     [(js ''width'', Finite 0), (js ''actualBoundingBoxAscent'', Finite 0),
      (js ''actualBoundingBoxDescent'', Finite 0)]"

definition blank_env :: env where
  "blank_env = example_env\<lparr>surface := blank_surface\<rparr>"

text \<open>The instance built with the default options on the example surfaces.\<close>

definition default_chars :: "(jsstring \<times> jsstring) list" where
  "default_chars = (case chars defaultOptions of None \<Rightarrow> [] | Some cs \<Rightarrow> cs)"

definition example_instance :: "env \<Rightarrow> metrics" where
  "example_instance e =
     create_instance e
       (setFont e new_ctx (js ''Helvetica'') (js ''400'') (js ''normal'') (Number (Finite 16))
          (Some (js ''top'')))
       default_chars (Number (Finite 16))"


section \<open>The backup-face registration\<close>

lemma insertblankFont_guard: "\<not> js_gt (ToNumber (number_length n)) (Finite (- 1))"
  by (simp add: number_length_def ToNumber_def)

lemma insertblankFont_appends:
  "insertblankFont e w st s =
     s\<lparr>head := head s @ [\<lparr>styleTag = js ''text/css'', textNode = blank_css e w st\<rparr>],
       insertedBlankFonts := insertedBlankFonts s @ [w @ st]\<rparr>"
  by (simp add: insertblankFont_def insertblankFont_guard Let_def)

lemma instances_insertblankFont [simp]: "instances (insertblankFont e w st s) = instances s"
  by (simp add: insertblankFont_appends)

lemma heap_insertblankFont [simp]: "heap (insertblankFont e w st s) = heap s"
  by (simp add: insertblankFont_appends)

lemmas call_evals =
  await_call_def run_def CanvasFontMetrics_def resume_def construct_def waitForFont_def
  getId_def js_get_def initial_page_def example_env_def example_stringify_def
  weight_or_default_def style_or_default_def options_or_default_def
  mergedOptions_def spread_options_def override_def defaultOptions_def
  object_prototype_names_def defaultFontWeight_def defaultFontStyle_def
  insertblankFont_appends Let_def js_def

text \<open>
  C2. The claim: the registration of the backup face declares the font-face rule once
  per (weight, style) pair and does nothing on a repeat call. In the code the guard
  \<open>insertedBlankFonts.indexOf(id).length > -1\<close> compares \<open>undefined\<close> with \<open>-1\<close> and
  never holds, so a second call for the same pair, from any page state, appends a
  second style element and a second registry entry; two calls of the factory for two
  families at weight 400, style normal, register the pair twice.
\<close>

theorem insertblankFont_registers_again:
  "head (insertblankFont e w st (insertblankFont e w st s)) =
     head s @ [\<lparr>styleTag = js ''text/css'', textNode = blank_css e w st\<rparr>,
               \<lparr>styleTag = js ''text/css'', textNode = blank_css e w st\<rparr>]
   \<and> insertedBlankFonts (insertblankFont e w st (insertblankFont e w st s)) =
       insertedBlankFonts s @ [w @ st, w @ st]
   \<and> insertedBlankFonts (snd (run example_env
         [Call (js ''Helvetica'') None None OptUndefined, Call (js ''Arial'') None None OptUndefined]
         ([], initial_page))) = [js ''400normal'', js ''400normal'']"
  by (simp add: insertblankFont_appends) (simp add: call_evals)

section \<open>The merge of the options\<close>

text \<open>
  C3. The claim: a partial \<open>chars\<close> object keeps the default anchor characters for the
  fields the caller did not supply. In the code the merged \<open>chars\<close> written first is
  replaced by \<open>...defaultOptions\<close> and then by \<open>...options\<close>: for the options
  \<open>{chars: {capHeight: 'H'}}\<close> the merged \<open>chars\<close> is the caller's object alone, and the
  anchor \<open>xHeight\<close> is read as \<open>undefined\<close>; \<open>fontSize\<close> and \<open>baseline\<close> take their
  defaults.
\<close>

theorem mergedOptions_partial_chars:
  "mergedOptions (OptObject \<lparr>chars = Some [(js ''capHeight'', js ''H'')],
                             fontSize = None, baseline = None\<rparr>) =
     Inr \<lparr>chars = Some [(js ''capHeight'', js ''H'')],
          fontSize = Some (Finite 16), baseline = Some (js ''top'')\<rparr>
   \<and> anchor [(js ''capHeight'', js ''H'')] (js ''xHeight'') = js ''undefined''"
  by (simp add: mergedOptions_def spread_options_def override_def defaultOptions_def
      anchor_def js_def)

section \<open>Ligatures and glyphs\<close>

lemma has_width_measured [simp]: "has_width e (c\<lparr>measured := xs\<rparr>) string = has_width e c string"
  by (simp add: has_width_def raw_field_def)

lemma raw_field_measured [simp]:
  "raw_field e (c\<lparr>measured := xs\<rparr>) string field = raw_field e c string field"
  by (simp add: raw_field_def)

lemma measureTop_eq:
  "measureTop e c string fs =
     (js_div (ToNumber (raw_field e c string (js ''actualBoundingBoxAscent''))) (ToNumber fs),
      c\<lparr>measured := measured c @ [string]\<rparr>)"
  by (simp add: measureTop_def ctx_measureText_def raw_field_def)

lemma measureBottom_eq:
  "measureBottom e c string fs =
     (js_div (ToNumber (raw_field e c string (js ''actualBoundingBoxDescent''))) (ToNumber fs),
      c\<lparr>measured := measured c @ [string]\<rparr>)"
  by (simp add: measureBottom_def ctx_measureText_def raw_field_def)

lemma detectLigatures_loop_eq:
  "detectLigatures_loop e codes c detected =
     (detected @ map fst (filter (\<lambda>(lig, code). has_width e c (fromCharCode code)) codes),
      c\<lparr>measured := measured c @ map (\<lambda>(lig, code). fromCharCode code) codes\<rparr>)"
proof (induction codes arbitrary: c detected)
  case Nil
  show ?case by simp
next
  case (Cons p codes)
  obtain lig code where p: "p = (lig, code)" by (cases p)
  show ?case
    by (simp add: p Cons.IH ctx_measureText_def has_width_def raw_field_def)
qed

lemma detectLigatures_eq:
  "detectLigatures e c =
     ((if has_width e c (fromCharCode 64256) then [js ''ff''] else []) @
      (if has_width e c (fromCharCode 64257) then [js ''fi''] else []) @
      (if has_width e c (fromCharCode 64258) then [js ''fl''] else []) @
      (if has_width e c (fromCharCode 64262) then [js ''st''] else []),
      c\<lparr>measured := measured c @
           [fromCharCode 64256, fromCharCode 64257, fromCharCode 64258, fromCharCode 64262]\<rparr>)"
  by (simp add: detectLigatures_def detectLigatures_loop_eq ligatureCodes_def)

lemma create_instance_ligatures:
  "ligatures (create_instance e c cs fs) = fst (detectLigatures e c)"
  by (simp add: create_instance_def measureTop_eq measureBottom_eq detectLigatures_eq Let_def)

lemma subseq_pick:
  "subseq ((if a then [x1] else []) @ (if b then [x2] else []) @
           (if c then [x3] else []) @ (if d then [x4] else [])) [x1, x2, x3, x4]"
  by (cases a; cases b; cases c; cases d) (auto intro: subseq_Cons')

text \<open>
  C7. The ligatures of an instance are the names among ff, fi, fl, st whose character
  (codes 64256, 64257, 64258, 64262) the surface measures with a width greater than zero,
  in that fixed order whatever subset is present; it is what \<open>detectLigatures\<close> returns
  on the configured context.
\<close>

theorem ligatures_in_declaration_order:
  "ligatures (create_instance e c cs fs) =
     (if has_width e c (fromCharCode 64256) then [js ''ff''] else []) @
     (if has_width e c (fromCharCode 64257) then [js ''fi''] else []) @
     (if has_width e c (fromCharCode 64258) then [js ''fl''] else []) @
     (if has_width e c (fromCharCode 64262) then [js ''st''] else [])
   \<and> fst (detectLigatures e c) = ligatures (create_instance e c cs fs)
   \<and> subseq (ligatures (create_instance e c cs fs)) [js ''ff'', js ''fi'', js ''fl'', js ''st'']"
  by (simp add: create_instance_ligatures detectLigatures_eq subseq_pick)

lemma detectGlyphs_loop_eq:
  "i \<le> 65536 \<Longrightarrow>
   detectGlyphs_loop e i c detected =
     (detected @ map fromCharCode (filter (\<lambda>j. has_width e c (fromCharCode j)) [i..<65536]),
      c\<lparr>measured := measured c @ map fromCharCode [i..<65536]\<rparr>)"
proof (induction e i c detected rule: detectGlyphs_loop.induct)
  case (1 e i c detected)
  show ?case
  proof (cases "i \<le> 65535")
    case True
    then have upt: "[i..<65536] = i # [Suc i..<65536]"
      by (simp add: upt_conv_Cons)
    from True have "i + 1 \<le> 65536" by simp
    from "1.IH"[OF True this]
    have IH: "detectGlyphs_loop e (Suc i) (c\<lparr>measured := measured c @ [fromCharCode i]\<rparr>)
                (if has_width e c (fromCharCode i) then detected @ [fromCharCode i] else detected) =
              ((if has_width e c (fromCharCode i) then detected @ [fromCharCode i] else detected) @
                 map fromCharCode (filter (\<lambda>j. has_width e c (fromCharCode j)) [Suc i..<65536]),
               c\<lparr>measured := measured c @ fromCharCode i # map fromCharCode [Suc i..<65536]\<rparr>)"
      by (simp add: ctx_measureText_def has_width_def raw_field_def)
    have "detectGlyphs_loop e i c detected =
            detectGlyphs_loop e (Suc i) (c\<lparr>measured := measured c @ [fromCharCode i]\<rparr>)
              (if has_width e c (fromCharCode i) then detected @ [fromCharCode i] else detected)"
      by (subst detectGlyphs_loop.simps) (simp add: True ctx_measureText_def has_width_def raw_field_def)
    also note IH
    finally show ?thesis
      by (simp add: upt)
  next
    case False
    with "1.prems" have "i = 65536" by simp
    then show ?thesis by (subst detectGlyphs_loop.simps) simp
  qed
qed

lemma code_unit_mono: "i < j \<Longrightarrow> j < 65536 \<Longrightarrow> (of_nat i :: 16 word) < of_nat j"
  by (simp add: word_of_nat_less_iff take_bit_nat_eq_self)

lemma glyphs_ascending:
  "sorted_wrt (<) (concat (map fromCharCode (filter P [0..<65536])))"
proof -
  have "concat (map fromCharCode xs) = map of_nat xs" for xs :: "nat list"
    by (induction xs) (simp_all add: fromCharCode_def)
  moreover have "sorted_wrt (\<lambda>i j. (of_nat i :: 16 word) < of_nat j) (filter P [0..<65536])"
    by (rule sorted_wrt_mono_rel[where P = "(<)"]) (auto simp: code_unit_mono sorted_wrt_filter)
  ultimately show ?thesis
    by (simp add: sorted_wrt_map)
qed

lemma getGlyphs_eq:
  "getGlyphs e m =
     (map fromCharCode (filter (\<lambda>i. has_width e (closure_ctx m) (fromCharCode i)) [0..<65536]),
      m\<lparr>closure_ctx := (closure_ctx m)\<lparr>measured := measured (closure_ctx m) @ map fromCharCode [0..<65536]\<rparr>\<rparr>)"
  by (simp add: getGlyphs_def detectGlyphs_def detectGlyphs_loop_eq)


text \<open>
  C8. \<open>getGlyphs()\<close> returns the one-character strings of exactly the codes from 0 to
  65535 that the surface measures with a width greater than zero, in ascending order of
  the code; it probes the codes 0 to 65535 and nothing else; and on a surface that
  reports no width for any of them it returns the empty sequence.
\<close>

theorem getGlyphs_scan:
  "fst (getGlyphs e m) =
     map fromCharCode (filter (\<lambda>i. has_width e (closure_ctx m) (fromCharCode i)) [0..<65536])
   \<and> sorted_wrt (<) (concat (fst (getGlyphs e m)))
   \<and> measured (closure_ctx (snd (getGlyphs e m))) =
       measured (closure_ctx m) @ map fromCharCode [0..<65536]
   \<and> ((\<forall>i<65536. \<not> has_width e (closure_ctx m) (fromCharCode i)) \<longrightarrow> fst (getGlyphs e m) = [])"
  by (simp add: getGlyphs_eq glyphs_ascending filter_empty_conv)

lemma blank_has_no_width: "\<not> has_width blank_env c string"
  by (simp add: has_width_def raw_field_def blank_env_def blank_surface_def tm_get_def ToNumber_def)

theorem getGlyphs_scan_witness:
  "fst (getGlyphs blank_env (example_instance blank_env)) = []"
  using getGlyphs_scan [of blank_env "example_instance blank_env"]
  by (simp add: blank_has_no_width)


section \<open>The instance cache\<close>

lemma await_call_hit:
  "js_get (instances s) (getId e f (weight_or_default w) (style_or_default st) (options_or_default o')) = Own r
   \<Longrightarrow> await_call e f w st o' ev1 ev2 s = (Settled (Inr (Instance r)), s)"
  by (simp add: await_call_def CanvasFontMetrics_def resume_def Let_def)

lemma await_call_inherited:
  "js_get (instances s) (getId e f (weight_or_default w) (style_or_default st) (options_or_default o')) = Inherited k
   \<Longrightarrow> await_call e f w st o' ev1 ev2 s = (Settled (Inr (PrototypeMember k)), s)"
  by (simp add: await_call_def CanvasFontMetrics_def resume_def Let_def)

lemma await_call_miss:
  "js_get (instances s) (getId e f (weight_or_default w) (style_or_default st) (options_or_default o')) = Missing
   \<Longrightarrow> await_call e f w st o' ev1 ev2 s =
     (case waitForFont ev1 of
        Inl err \<Rightarrow> (Settled (Inl err), insertblankFont e (weight_or_default w) (style_or_default st) s)
      | Inr u \<Rightarrow> (case waitForFont ev2 of
          Inl err \<Rightarrow> (Settled (Inl err), insertblankFont e (weight_or_default w) (style_or_default st) s)
        | Inr u' \<Rightarrow> construct e (Frame f (weight_or_default w) (style_or_default st) (options_or_default o')
              (getId e f (weight_or_default w) (style_or_default st) (options_or_default o')))
             (insertblankFont e (weight_or_default w) (style_or_default st) s)))"
  by (simp add: await_call_def CanvasFontMetrics_def resume_def Let_def split: sum.splits)

lemma mergedOptions_object:
  "\<exists>merged cs. mergedOptions (OptObject opts) = Inr merged \<and> chars merged = Some cs"
  by (cases "chars opts")
    (simp_all add: mergedOptions_def spread_options_def override_def defaultOptions_def)

lemma construct_object:
  "\<exists>m. construct e (Frame f w st (OptObject opts) k) s =
     (Settled (Inr (Instance (length (heap s)))),
       s\<lparr>heap := heap s @ [m], instances := AList.update k (length (heap s)) (instances s)\<rparr>)"
proof -
  obtain merged cs where "mergedOptions (OptObject opts) = Inr merged" "chars merged = Some cs"
    using mergedOptions_object by blast
  then show ?thesis
    by (auto simp add: construct_def Let_def)
qed

lemma construct_null:
  "construct e (Frame f w st OptNull k) s = (Settled (Inl TypeError), s)"
  by (simp add: construct_def mergedOptions_def)

lemma options_or_default_cases:
  "options_or_default o' = OptNull \<or> (\<exists>opts. options_or_default o' = OptObject opts)"
  by (cases o') (simp_all add: options_or_default_def)

lemma js_get_update: "js_get (AList.update k v al) k = Own v"
  by (simp add: js_get_def update_conv')

lemma waitForFont_cases:
  "waitForFont ev = Inr () \<and> ev = Loaded \<or> (\<exists>reason. waitForFont ev = Inl (LoadRejected reason) \<and> ev = Failed reason)"
  by (cases ev) (simp_all add: waitForFont_def)

lemma await_call_success_cached:
  assumes "await_call e f w st o' ev1 ev2 s = (Settled (Inr v), s1)"
  shows "(\<exists>r. v = Instance r \<and> js_get (instances s1)
             (getId e f (weight_or_default w) (style_or_default st) (options_or_default o')) = Own r)
       \<or> (\<exists>k. v = PrototypeMember k \<and> js_get (instances s1)
             (getId e f (weight_or_default w) (style_or_default st) (options_or_default o')) = Inherited k)"
    and "length (heap s1) \<le> Suc (length (heap s))"
proof -
  let ?key = "getId e f (weight_or_default w) (style_or_default st) (options_or_default o')"
  let ?s0 = "insertblankFont e (weight_or_default w) (style_or_default st) s"
  have "((\<exists>r. v = Instance r \<and> js_get (instances s1) ?key = Own r)
       \<or> (\<exists>k. v = PrototypeMember k \<and> js_get (instances s1) ?key = Inherited k))
     \<and> length (heap s1) \<le> Suc (length (heap s))"
  proof (cases "js_get (instances s) ?key")
    case (Own r)
    with assms show ?thesis by (simp add: await_call_hit)
  next
    case (Inherited k)
    with assms show ?thesis by (simp add: await_call_inherited)
  next
    case Missing
    note miss = await_call_miss[OF Missing, of ev1 ev2]
    from waitForFont_cases[of ev1] waitForFont_cases[of ev2] assms miss
    have c: "construct e (Frame f (weight_or_default w) (style_or_default st) (options_or_default o') ?key) ?s0
            = (Settled (Inr v), s1)"
      by auto
    from options_or_default_cases[of o'] show ?thesis
    proof
      assume "options_or_default o' = OptNull"
      with c show ?thesis by (simp add: construct_null)
    next
      assume "\<exists>opts. options_or_default o' = OptObject opts"
      then obtain opts where o: "options_or_default o' = OptObject opts" ..
      obtain m where "construct e (Frame f (weight_or_default w) (style_or_default st) (OptObject opts) ?key) ?s0
          = (Settled (Inr (Instance (length (heap ?s0)))),
             ?s0\<lparr>heap := heap ?s0 @ [m], instances := AList.update ?key (length (heap ?s0)) (instances ?s0)\<rparr>)"
        using construct_object by blast
      with c o show ?thesis
        by (auto simp add: js_get_update)
    qed
  qed
  then show "(\<exists>r. v = Instance r \<and> js_get (instances s1) ?key = Own r)
       \<or> (\<exists>k. v = PrototypeMember k \<and> js_get (instances s1) ?key = Inherited k)"
    and "length (heap s1) \<le> Suc (length (heap s))" by simp_all
qed

lemma await_call_cached:
  assumes "(\<exists>r. v = Instance r \<and> js_get (instances s)
             (getId e f (weight_or_default w) (style_or_default st) (options_or_default o')) = Own r)
       \<or> (\<exists>k. v = PrototypeMember k \<and> js_get (instances s)
             (getId e f (weight_or_default w) (style_or_default st) (options_or_default o')) = Inherited k)"
  shows "await_call e f w st o' ev1 ev2 s = (Settled (Inr v), s)"
  using assms by (auto simp add: await_call_hit await_call_inherited)














lemma getId_collision:
  "getId e (js ''Arial4'') (js ''00'') st o' = getId e (js ''Arial'') (js ''400'') st o'"
  by (simp add: getId_def js_def)

text \<open>
  C9. The key is the concatenation, without separators, of family, weight, style and the
  serialized options. It is not injective: family \<open>Arial4\<close> with weight \<open>00\<close> and family
  \<open>Arial\<close> with weight \<open>400\<close> (same style and options) have the same key, so once a call
  for the first has settled with a value, a call for the second returns that very value
  from the cache.
\<close>

theorem getId_not_injective:
  "getId e f w st o' = f @ w @ st @ JSON_stringify e o'
   \<and> getId e (js ''Arial4'') (js ''00'') st o' = getId e (js ''Arial'') (js ''400'') st o'
   \<and> (js ''Arial4'', js ''00'') \<noteq> (js ''Arial'', js ''400'')
   \<and> (await_call e (js ''Arial4'') (Some (js ''00'')) (Some st) oa ev1 ev2 s = (Settled (Inr v), s1)
        \<longrightarrow> await_call e (js ''Arial'') (Some (js ''400'')) (Some st) oa ev1' ev2' s1 = (Settled (Inr v), s1))"
proof -
  have share: "await_call e (js ''Arial'') (Some (js ''400'')) (Some st) oa ev1' ev2' s1 = (Settled (Inr v), s1)"
    if "await_call e (js ''Arial4'') (Some (js ''00'')) (Some st) oa ev1 ev2 s = (Settled (Inr v), s1)"
    using await_call_success_cached(1)[OF that]
    by (intro await_call_cached) (simp add: weight_or_default_def style_or_default_def getId_collision)
  show ?thesis
    using share by (simp add: getId_collision) (simp add: getId_def js_def)
qed




theorem getId_not_injective_witness:
  "fst (await_call example_env (js ''Arial4'') (Some (js ''00'')) (Some (js ''normal'')) OptUndefined
          Loaded Loaded initial_page) = Settled (Inr (Instance 0))
   \<and> await_call example_env (js ''Arial'') (Some (js ''400'')) (Some (js ''normal'')) OptUndefined
        Loaded Loaded
        (snd (await_call example_env (js ''Arial4'') (Some (js ''00'')) (Some (js ''normal''))
                OptUndefined Loaded Loaded initial_page))
     = (Settled (Inr (Instance 0)),
        snd (await_call example_env (js ''Arial4'') (Some (js ''00'')) (Some (js ''normal''))
               OptUndefined Loaded Loaded initial_page))"
proof -
  have first: "fst (await_call example_env (js ''Arial4'') (Some (js ''00'')) (Some (js ''normal''))
      OptUndefined Loaded Loaded initial_page) = Settled (Inr (Instance 0))"
    by (simp add: call_evals)
  then have "await_call example_env (js ''Arial4'') (Some (js ''00'')) (Some (js ''normal''))
      OptUndefined Loaded Loaded initial_page
      = (Settled (Inr (Instance 0)),
         snd (await_call example_env (js ''Arial4'') (Some (js ''00'')) (Some (js ''normal''))
               OptUndefined Loaded Loaded initial_page))"
    by (simp add: prod_eq_iff)
  with getId_not_injective [of example_env "[]" "[]" "js ''normal''" OptUndefined OptUndefined
      Loaded Loaded initial_page "Instance 0"
      "snd (await_call example_env (js ''Arial4'') (Some (js ''00'')) (Some (js ''normal''))
               OptUndefined Loaded Loaded initial_page)" Loaded Loaded] first
  show ?thesis by simp
qed

text \<open>
  C6. On a cache miss, if the wait for the requested font or the wait for the backup face
  is rejected, the call is rejected with that same reason; \<open>instances\<close> and the store of
  instances are as before the call. This holds of the resumption itself, in whatever page
  state it happens. A retry for the same identity then finds no entry and, when both
  waits succeed, builds and caches an instance.
\<close>

theorem failed_wait_leaves_no_entry:
  assumes miss: "js_get (instances s)
      (getId e f (weight_or_default w) (style_or_default st) (options_or_default o')) = Missing"
    and failure: "ev1 = Failed reason \<or> (ev1 = Loaded \<and> ev2 = Failed reason)"
  shows "await_call e f w st o' ev1 ev2 s =
           (Settled (Inl (LoadRejected reason)),
            insertblankFont e (weight_or_default w) (style_or_default st) s)
       \<and> instances (insertblankFont e (weight_or_default w) (style_or_default st) s) = instances s
       \<and> heap (insertblankFont e (weight_or_default w) (style_or_default st) s) = heap s
       \<and> resume e (Failed reason) (AwaitFont fr) s' = (Settled (Inl (LoadRejected reason)), s')
       \<and> resume e (Failed reason) (AwaitBlank fr) s' = (Settled (Inl (LoadRejected reason)), s')
       \<and> (o' \<noteq> OptNull \<longrightarrow>
            fst (await_call e f w st o' Loaded Loaded
                   (insertblankFont e (weight_or_default w) (style_or_default st) s))
              = Settled (Inr (Instance (length (heap s))))
          \<and> js_get (instances (snd (await_call e f w st o' Loaded Loaded
                   (insertblankFont e (weight_or_default w) (style_or_default st) s))))
                (getId e f (weight_or_default w) (style_or_default st) (options_or_default o'))
              = Own (length (heap s)))"
proof -
  let ?key = "getId e f (weight_or_default w) (style_or_default st) (options_or_default o')"
  let ?s0 = "insertblankFont e (weight_or_default w) (style_or_default st) s"
  have rejected: "await_call e f w st o' ev1 ev2 s = (Settled (Inl (LoadRejected reason)), ?s0)"
    using failure by (auto simp add: await_call_miss[OF miss] waitForFont_def)
  have steps: "resume e (Failed reason) (AwaitFont fr) s' = (Settled (Inl (LoadRejected reason)), s')"
    "resume e (Failed reason) (AwaitBlank fr) s' = (Settled (Inl (LoadRejected reason)), s')"
    by (simp_all add: resume_def waitForFont_def)
  have retry: "fst (await_call e f w st o' Loaded Loaded ?s0) = Settled (Inr (Instance (length (heap s))))
      \<and> js_get (instances (snd (await_call e f w st o' Loaded Loaded ?s0))) ?key = Own (length (heap s))"
    if "o' \<noteq> OptNull"
  proof -
    from that obtain opts where o: "options_or_default o' = OptObject opts"
      by (cases o') (simp_all add: options_or_default_def)
    have miss0: "js_get (instances ?s0) ?key = Missing"
      using miss by simp
    obtain m where "construct e (Frame f (weight_or_default w) (style_or_default st) (OptObject opts) ?key)
          (insertblankFont e (weight_or_default w) (style_or_default st) ?s0)
        = (Settled (Inr (Instance (length (heap (insertblankFont e (weight_or_default w) (style_or_default st) ?s0))))),
           (insertblankFont e (weight_or_default w) (style_or_default st) ?s0)
             \<lparr>heap := heap (insertblankFont e (weight_or_default w) (style_or_default st) ?s0) @ [m],
              instances := AList.update ?key
                (length (heap (insertblankFont e (weight_or_default w) (style_or_default st) ?s0)))
                (instances (insertblankFont e (weight_or_default w) (style_or_default st) ?s0))\<rparr>)"
      using construct_object by blast
    then show ?thesis
      by (simp add: await_call_miss[OF miss0] waitForFont_def o js_get_update)
  qed
  show ?thesis
    using rejected steps retry by simp
qed

theorem failed_wait_leaves_no_entry_witness:
  "await_call example_env (js ''Helvetica'') None None OptUndefined
       Loaded (Failed (js ''FontLoadTimeout'')) initial_page =
     (Settled (Inl (LoadRejected (js ''FontLoadTimeout''))),
      insertblankFont example_env (js ''400'') (js ''normal'') initial_page)
   \<and> instances (insertblankFont example_env (js ''400'') (js ''normal'') initial_page) = []
   \<and> fst (await_call example_env (js ''Helvetica'') None None OptUndefined Loaded Loaded
            (insertblankFont example_env (js ''400'') (js ''normal'') initial_page))
       = Settled (Inr (Instance 0))"
proof -
  have miss: "js_get (instances initial_page)
      (getId example_env (js ''Helvetica'') (weight_or_default None) (style_or_default None)
         (options_or_default OptUndefined)) = Missing"
    by (simp add: call_evals)
  have "Loaded = Failed (js ''FontLoadTimeout'')
      \<or> (Loaded = Loaded \<and> Failed (js ''FontLoadTimeout'') = Failed (js ''FontLoadTimeout''))"
    by simp
  from failed_wait_leaves_no_entry [OF miss this]
  show ?thesis
    by (simp add: weight_or_default_def style_or_default_def defaultFontWeight_def
        defaultFontStyle_def initial_page_def)
qed


text \<open>
  C10. A call with \<open>options: null\<close> that misses the cache suspends on the two waits like
  any other, and when both have succeeded the merge reads \<open>options.chars\<close> from \<open>null\<close>
  and the call is rejected with a TypeError; nothing is cached. The default \<open>{}\<close>
  replaces \<open>options\<close> only when it is omitted: \<open>null\<close> stays \<open>null\<close>.
\<close>

theorem null_options_raise_TypeError:
  assumes miss: "js_get (instances s)
      (getId e f (weight_or_default w) (style_or_default st) OptNull) = Missing"
  shows "CanvasFontMetrics e f w st OptNull s =
           (AwaitFont (Frame f (weight_or_default w) (style_or_default st) OptNull
                         (getId e f (weight_or_default w) (style_or_default st) OptNull)),
            insertblankFont e (weight_or_default w) (style_or_default st) s)
       \<and> resume e Loaded (AwaitFont (Frame f' w' st' OptNull k)) s' =
           (AwaitBlank (Frame f' w' st' OptNull k), s')
       \<and> resume e Loaded (AwaitBlank (Frame f' w' st' OptNull k)) s' = (Settled (Inl TypeError), s')
       \<and> await_call e f w st OptNull Loaded Loaded s =
           (Settled (Inl TypeError), insertblankFont e (weight_or_default w) (style_or_default st) s)
       \<and> instances (insertblankFont e (weight_or_default w) (style_or_default st) s) = instances s
       \<and> options_or_default OptNull = OptNull
       \<and> options_or_default OptUndefined =
           OptObject \<lparr>chars = None, fontSize = None, baseline = None\<rparr>"
proof -
  have null: "options_or_default OptNull = OptNull"
    by (simp add: options_or_default_def)
  from miss have miss': "js_get (instances s)
      (getId e f (weight_or_default w) (style_or_default st) (options_or_default OptNull)) = Missing"
    by (simp add: null)
  have "CanvasFontMetrics e f w st OptNull s =
           (AwaitFont (Frame f (weight_or_default w) (style_or_default st) OptNull
                         (getId e f (weight_or_default w) (style_or_default st) OptNull)),
            insertblankFont e (weight_or_default w) (style_or_default st) s)"
    using miss by (simp add: CanvasFontMetrics_def null Let_def)
  moreover have "resume e Loaded (AwaitFont (Frame f' w' st' OptNull k)) s' =
           (AwaitBlank (Frame f' w' st' OptNull k), s')"
    by (simp add: resume_def waitForFont_def)
  moreover have "resume e Loaded (AwaitBlank (Frame f' w' st' OptNull k)) s' = (Settled (Inl TypeError), s')"
    by (simp add: resume_def waitForFont_def construct_null)
  moreover have "await_call e f w st OptNull Loaded Loaded s =
           (Settled (Inl TypeError), insertblankFont e (weight_or_default w) (style_or_default st) s)"
    by (simp add: await_call_miss[OF miss'] waitForFont_def null construct_null)
  ultimately show ?thesis
    by (simp add: options_or_default_def)
qed

theorem null_options_raise_TypeError_witness:
  "await_call example_env (js ''Helvetica'') (Some (js ''400'')) (Some (js ''normal'')) OptNull
       Loaded Loaded initial_page =
     (Settled (Inl TypeError), insertblankFont example_env (js ''400'') (js ''normal'') initial_page)
   \<and> instances (insertblankFont example_env (js ''400'') (js ''normal'') initial_page) = []"
proof -
  have miss: "js_get (instances initial_page)
      (getId example_env (js ''Helvetica'') (weight_or_default (Some (js ''400'')))
         (style_or_default (Some (js ''normal''))) OptNull) = Missing"
    by (simp add: call_evals)
  from null_options_raise_TypeError [OF miss]
  show ?thesis
    by (simp add: weight_or_default_def style_or_default_def initial_page_def)
qed

section \<open>Normalization\<close>

lemma create_instance_eq:
  "create_instance e c cs fs =
     \<lparr>capHeight = js_div (ToNumber (raw_field e c (anchor cs (js ''capHeight'')) (js ''actualBoundingBoxAscent''))) (ToNumber fs),
      baseline = js_div (ToNumber (raw_field e c (anchor cs (js ''baseline'')) (js ''actualBoundingBoxDescent''))) (ToNumber fs),
      xHeight = js_div (ToNumber (raw_field e c (anchor cs (js ''xHeight'')) (js ''actualBoundingBoxAscent''))) (ToNumber fs),
      descent = js_div (ToNumber (raw_field e c (anchor cs (js ''descent'')) (js ''actualBoundingBoxDescent''))) (ToNumber fs),
      ascent = js_div (ToNumber (raw_field e c (anchor cs (js ''ascent'')) (js ''actualBoundingBoxAscent''))) (ToNumber fs),
      tittle = js_div (ToNumber (raw_field e c (anchor cs (js ''tittle'')) (js ''actualBoundingBoxAscent''))) (ToNumber fs),
      ligatures = fst (detectLigatures e c),
      closure_ctx = c\<lparr>measured := measured c @
         [anchor cs (js ''capHeight''), anchor cs (js ''baseline''), anchor cs (js ''xHeight''),
          anchor cs (js ''descent''), anchor cs (js ''ascent''), anchor cs (js ''tittle''),
          fromCharCode 64256, fromCharCode 64257, fromCharCode 64258, fromCharCode 64262]\<rparr>,
      closure_fontSize = fs, closure_widths = []\<rparr>"
  by (simp add: create_instance_def measureTop_eq measureBottom_eq detectLigatures_eq Let_def)

lemma normalize_loop_lookup:
  "map_of (normalize_loop ms props fs acc) k =
     (if k \<in> set props \<and> k \<noteq> js ''__proto__''
      then Some (if truthy (tm_get ms k) then Number (js_div (ToNumber (tm_get ms k)) (ToNumber fs))
                 else tm_get ms k)
      else map_of acc k)"
  by (induction props arbitrary: acc) (auto simp add: assign_def update_conv')

lemma measureText_lookup:
  assumes "map_of (surface e (font (closure_ctx m)) (textAlign (closure_ctx m)) (textBaseline (closure_ctx m)) string) field = Some n"
    and "field \<noteq> js ''__proto__''"
  shows "map_of (fst (measureText e m string)) field =
     Some (if truthy (Number n) then Number (js_div n (ToNumber (closure_fontSize m))) else Number n)"
proof -
  let ?tm = "surface e (font (closure_ctx m)) (textAlign (closure_ctx m)) (textBaseline (closure_ctx m)) string"
  from assms(1) have "field \<in> set (map fst ?tm)"
    by (metis map_of_eq_None_iff option.distinct(1) set_map)
  moreover from assms(1) have "tm_get ?tm field = Number n"
    by (simp add: tm_get_def)
  ultimately show ?thesis
    using assms(2)
    by (simp add: measureText_def ctx_measureText_def normalize_def normalize_loop_lookup ToNumber_def)
qed


text \<open>
  C4 (amended). Each of the six anchor metrics is the raw bounding-box reading of its
  anchor text divided by the font size, always: a reading of \<open>undefined\<close> is converted to
  NaN and divided. Each field of the result of \<open>measureText\<close> is the raw field divided by
  the font size when the raw field is truthy, and the raw field unchanged when it is zero
  or NaN.
\<close>

theorem anchors_divided_measureText_normalized:
  "capHeight (create_instance e c cs fs) =
     js_div (ToNumber (raw_field e c (anchor cs (js ''capHeight'')) (js ''actualBoundingBoxAscent'')))
       (ToNumber fs)
   \<and> metrics.baseline (create_instance e c cs fs) =
     js_div (ToNumber (raw_field e c (anchor cs (js ''baseline'')) (js ''actualBoundingBoxDescent'')))
       (ToNumber fs)
   \<and> xHeight (create_instance e c cs fs) =
     js_div (ToNumber (raw_field e c (anchor cs (js ''xHeight'')) (js ''actualBoundingBoxAscent'')))
       (ToNumber fs)
   \<and> descent (create_instance e c cs fs) =
     js_div (ToNumber (raw_field e c (anchor cs (js ''descent'')) (js ''actualBoundingBoxDescent'')))
       (ToNumber fs)
   \<and> ascent (create_instance e c cs fs) =
     js_div (ToNumber (raw_field e c (anchor cs (js ''ascent'')) (js ''actualBoundingBoxAscent'')))
       (ToNumber fs)
   \<and> tittle (create_instance e c cs fs) =
     js_div (ToNumber (raw_field e c (anchor cs (js ''tittle'')) (js ''actualBoundingBoxAscent'')))
       (ToNumber fs)
   \<and> closure_fontSize (create_instance e c cs fs) = fs
   \<and> (raw_field e (closure_ctx m) string field = Number n \<and> field \<noteq> js ''__proto__'' \<longrightarrow>
        map_of (fst (measureText e m string)) field =
          Some (if truthy (Number n) then Number (js_div n (ToNumber (closure_fontSize m)))
                else Number n))"
proof -
  have "map_of (fst (measureText e m string)) field =
          Some (if truthy (Number n) then Number (js_div n (ToNumber (closure_fontSize m)))
                else Number n)"
    if "raw_field e (closure_ctx m) string field = Number n" and "field \<noteq> js ''__proto__''"
  proof (rule measureText_lookup)
    from that(1) show "map_of (surface e (font (closure_ctx m)) (textAlign (closure_ctx m))
        (textBaseline (closure_ctx m)) string) field = Some n"
      by (simp add: raw_field_def tm_get_def split: option.splits)
  qed (rule that(2))
  then show ?thesis
    by (simp add: create_instance_eq)
qed

lemma raw_field_example_S:
  "raw_field example_env c (js ''S'') (js ''width'') = Number (Finite 60)"
  "raw_field example_env c (js ''S'') (js ''actualBoundingBoxAscent'') = Number (Finite 70)"
  "raw_field example_env c (js ''S'') (js ''actualBoundingBoxDescent'') = Number (Finite 0)"
  by (simp_all add: raw_field_def example_env_def example_surface_def tm_get_def js_def)

theorem anchors_divided_measureText_normalized_witness:
  "capHeight (example_instance example_env) = Finite (35 / 8)
   \<and> map_of (fst (measureText example_env (example_instance example_env) (js ''S''))) (js ''width'')
       = Some (Number (Finite (15 / 4)))
   \<and> map_of (fst (measureText example_env (example_instance example_env) (js ''S'')))
        (js ''actualBoundingBoxDescent'') = Some (Number (Finite 0))"
proof -
  note inst = anchors_divided_measureText_normalized
    [of example_env
      "setFont example_env new_ctx (js ''Helvetica'') (js ''400'') (js ''normal'')
         (Number (Finite 16)) (Some (js ''top''))"
      default_chars "Number (Finite 16)" "example_instance example_env" "js ''S''"]
  have anchorS: "anchor default_chars (js ''capHeight'') = js ''S''"
    by (simp add: anchor_def default_chars_def defaultOptions_def)
  have fs: "closure_fontSize (example_instance example_env) = Number (Finite 16)"
    by (simp add: example_instance_def create_instance_eq)
  have names: "js ''width'' \<noteq> js ''__proto__''" "js ''actualBoundingBoxDescent'' \<noteq> js ''__proto__''"
    by (simp_all add: js_def)
  from inst [of "js ''width''" "Finite 60"] inst [of "js ''actualBoundingBoxDescent''" "Finite 0"]
  show ?thesis
    by (simp add: raw_field_example_S anchorS fs names ToNumber_def example_instance_def)
qed

text \<open>
  C4 (as stated, refuted). On a surface whose measurements have no
  \<open>actualBoundingBoxAscent\<close>, the raw reading for the cap-height anchor is \<open>undefined\<close>,
  which is falsy, yet the reported \<open>capHeight\<close> is NaN and not that raw value.
\<close>

theorem undefined_anchor_reported_as_NaN:
  "heap (snd (await_call width_only_env (js ''Helvetica'') None None OptUndefined Loaded Loaded
               initial_page)) = [example_instance width_only_env]
   \<and> raw_field width_only_env (closure_ctx (example_instance width_only_env)) (js ''S'')
        (js ''actualBoundingBoxAscent'') = Undefined
   \<and> \<not> truthy Undefined
   \<and> capHeight (example_instance width_only_env) = NaN"
proof -
  have "heap (snd (await_call width_only_env (js ''Helvetica'') None None OptUndefined Loaded Loaded
               initial_page)) = [example_instance width_only_env]"
    by (simp add: call_evals width_only_env_def example_instance_def default_chars_def fontSize_of_def)
  moreover have "raw_field width_only_env c (js ''S'') (js ''actualBoundingBoxAscent'') = Undefined" for c
    by (simp add: raw_field_def width_only_env_def example_env_def width_only_surface_def tm_get_def js_def)
  moreover have "anchor default_chars (js ''capHeight'') = js ''S''"
    by (simp add: anchor_def default_chars_def defaultOptions_def)
  ultimately show ?thesis
    by (simp add: example_instance_def create_instance_eq ToNumber_def)
qed

section \<open>The width cache\<close>

lemma measureWidth_first:
  "js_get (closure_widths m) string = Missing \<Longrightarrow>
   measureWidth e m string =
     (Own (js_div (ToNumber (raw_field e (closure_ctx m) string (js ''width'')))
             (ToNumber (closure_fontSize m))),
      m\<lparr>closure_ctx := (closure_ctx m)\<lparr>measured := measured (closure_ctx m) @ [string]\<rparr>,
        closure_widths := AList.update string
          (js_div (ToNumber (raw_field e (closure_ctx m) string (js ''width'')))
             (ToNumber (closure_fontSize m))) (closure_widths m)\<rparr>)"
  by (simp add: measureWidth_def ctx_measureText_def raw_field_def js_get_update Let_def)

lemma measureWidth_cached:
  assumes "measureWidth e m string = (v, m1)" and "truthy_property v"
  shows "measureWidth e' m1 string = (v, m1)"
proof (cases "truthy_property (js_get (closure_widths m) string)")
  case True
  with assms show ?thesis
    by (auto simp add: measureWidth_def)
next
  case False
  with assms show ?thesis
    by (auto simp add: measureWidth_def ctx_measureText_def js_get_update Let_def)
qed

lemma measureWidth_falsy_again:
  assumes "js_get (closure_widths m) string = Own w" and "\<not> truthy (Number w)"
  shows "measured (closure_ctx (snd (measureWidth e m string))) = measured (closure_ctx m) @ [string]"
  using assms by (simp add: measureWidth_def ctx_measureText_def Let_def)

text \<open>
  C5. The claim: \<open>measureWidth\<close> measures a string once and returns the stored value on
  every later call. In the code the test \<open>!widths[string]\<close> takes a stored zero for an
  absent entry: the text \<open>x\<close>, which the example font lacks, has width 0, and the second
  call of \<open>measureWidth\<close> for it invokes the surface a second time. (A stored truthy
  width is returned without a measurement: \<open>measureWidth_cached\<close>.)
\<close>

theorem measureWidth_zero_width_measured_again:
  "fst (measureWidth example_env (example_instance example_env) (js ''x'')) = Own (Finite 0)
   \<and> fst (measureWidth example_env
            (snd (measureWidth example_env (example_instance example_env) (js ''x''))) (js ''x''))
       = Own (Finite 0)
   \<and> measured (closure_ctx (snd (measureWidth example_env
            (snd (measureWidth example_env (example_instance example_env) (js ''x''))) (js ''x''))))
       = measured (closure_ctx (example_instance example_env)) @ [js ''x'', js ''x'']"
proof -
  have raw: "raw_field example_env c (js ''x'') (js ''width'') = Number (Finite 0)" for c
    by (simp add: raw_field_def example_env_def example_surface_def tm_get_def js_def fromCharCode_def)
  have missing: "js_get [] (js ''x'') = (Missing :: jsnum property)"
    by (simp add: js_get_def object_prototype_names_def js_def)
  have first: "measureWidth example_env (example_instance example_env) (js ''x'') =
      (Own (Finite 0),
       (example_instance example_env)
         \<lparr>closure_ctx := (closure_ctx (example_instance example_env))
            \<lparr>measured := measured (closure_ctx (example_instance example_env)) @ [js ''x'']\<rparr>,
          closure_widths := [(js ''x'', Finite 0)]\<rparr>)"
    by (subst measureWidth_first)
      (simp_all add: example_instance_def create_instance_eq missing raw ToNumber_def)
  show ?thesis
    by (simp add: first) (simp add: measureWidth_def ctx_measureText_def js_get_def raw_field_def[symmetric] raw ToNumber_def example_instance_def create_instance_eq)
qed


end
